theory Spec2Isabelle
  imports Main
begin

section \<open>The launch description of realsense\_example.launch.py\<close>

text \<open>
  The script \<^verbatim>\<open>realsense_example.launch.py\<close> has one function,
  \<^verbatim>\<open>generate_launch_description\<close>. It declares eleven launch arguments and
  appends ten actions to them; every action is a call of the launch framework or of
  \<^verbatim>\<open>isaac_ros_launch_utils\<close> (\<^verbatim>\<open>lu\<close>) on literal data and on substitutions over
  the arguments. The description is embedded as data (the calls as constructors, in the
  order of the source), and the launch framework's reading of such a description as
  functions over it: \<open>perform\<close> for substitutions, \<open>evaluate_condition\<close> for
  conditions and \<open>execute\<close> for one action.
\<close>

subsection \<open>Python values and their text\<close>

text \<open>The values the script passes as argument defaults: strings, the integer 1, the
  boolean True.\<close>

datatype py_value = PyStr string | PyInt int | PyBool bool

text \<open>The values of the node's parameter dictionary and of \<^verbatim>\<open>SetParameter\<close>. A
  float literal is kept as the source writes it.\<close>

datatype parameter_value =
    ParamBool bool
  | ParamInt int
  | ParamFloat string
  | ParamStr string
  | ParamBoolList "bool list"

definition digit_char :: "nat \<Rightarrow> char" where
  "digit_char d = char_of (48 + d)"

text \<open>Python's \<^verbatim>\<open>str\<close> on a natural number, on an integer and on a boolean.\<close>

function str_nat :: "nat \<Rightarrow> string" where
  "str_nat n = (if n < 10 then [digit_char n] else str_nat (n div 10) @ [digit_char (n mod 10)])"
  by pat_completeness auto
termination
  by (relation "measure id") auto

definition str_int :: "int \<Rightarrow> string" where
  "str_int i = (if i < 0 then CHR ''-'' # str_nat (nat (- i)) else str_nat (nat i))"

definition str_bool :: "bool \<Rightarrow> string" where
  "str_bool b = (if b then ''True'' else ''False'')"

fun py_str :: "py_value \<Rightarrow> string" where
  "py_str (PyStr s) = s"
| "py_str (PyInt i) = str_int i"
| "py_str (PyBool b) = str_bool b"

subsection \<open>Errors\<close>

datatype error =
    SubstitutionFailure string
      \<comment> \<open>a launch configuration that is not set\<close>
  | InvalidConditionExpressionError string
      \<comment> \<open>a condition whose text is none of true, 1, false, 0\<close>
  | ValueError string
      \<comment> \<open>Python's \<^verbatim>\<open>int\<close> on a text that is no integer literal\<close>
  | AssertionError string
      \<comment> \<open>\<^verbatim>\<open>lu.assert_condition\<close> with a condition that holds\<close>
  | InvalidChoice string string
      \<comment> \<open>an argument declared with choices, set to another value\<close>
  | Unmodelled
      \<comment> \<open>a text outside the fragment of Python or YAML this model reads\<close>

subsection \<open>Python's int on a text\<close>

definition is_digit :: "char \<Rightarrow> bool" where
  "is_digit c = (48 \<le> (of_char c :: nat) \<and> (of_char c :: nat) \<le> 57)"

definition digit_val :: "char \<Rightarrow> nat" where
  "digit_val c = of_char c - 48"

text \<open>The characters a value may hold for the model to read the Python expression built
  around it: ASCII but the double quote and the backslash (the value is pasted between
  double quotes into the expression's text), the line feed and the carriage return (they
  would end the line inside the quotes) and the null character.\<close>

definition is_plain :: "char \<Rightarrow> bool" where
  "is_plain c = ((of_char c :: nat) < 128
                 \<and> c \<noteq> CHR 0x00 \<and> c \<noteq> CHR 0x0A \<and> c \<noteq> CHR 0x0D
                 \<and> c \<noteq> CHR 0x22 \<and> c \<noteq> CHR 0x5C)"

text \<open>Python's white space within ASCII (the characters \<^verbatim>\<open>str.isspace\<close> accepts):
  the codes 9 to 13 and 28 to 32. \<open>strip\<close> is \<^verbatim>\<open>str.strip()\<close>.\<close>

definition is_space :: "char \<Rightarrow> bool" where
  "is_space c = ((9 \<le> (of_char c :: nat) \<and> (of_char c :: nat) \<le> 13)
                 \<or> (28 \<le> (of_char c :: nat) \<and> (of_char c :: nat) \<le> 32))"

definition strip :: "string \<Rightarrow> string" where
  "strip s = rev (dropWhile is_space (rev (dropWhile is_space s)))"

text \<open>Digits with single underscores between them, read to the left of an accumulator:
  \<open>digits_value acc prev_digit s\<close>. An underscore must follow a digit and be followed by
  one.\<close>

fun digits_value :: "nat \<Rightarrow> bool \<Rightarrow> string \<Rightarrow> nat option" where
  "digits_value acc prev [] = (if prev then Some acc else None)"
| "digits_value acc prev (c # cs) =
     (if is_digit c then digits_value (10 * acc + digit_val c) True cs
      else if c = CHR ''_'' \<and> prev \<and> cs \<noteq> [] \<and> is_digit (hd cs) then digits_value acc False cs
      else None)"

text \<open>\<^verbatim>\<open>int(s)\<close> for a text of plain characters: surrounding white space is
  dropped, one sign is allowed, then at least one digit. Whether CPython converts a text
  of more than 4300 digits depends on its version and settings; the model does not read
  a text with that many digits.\<close>

definition python_int :: "string \<Rightarrow> error + int" where
  "python_int s =
     (if \<not> list_all is_plain s \<or> length (filter is_digit s) > 4300 then Inl Unmodelled
      else
        (case strip s of
           [] \<Rightarrow> Inl (ValueError s)
         | c # cs \<Rightarrow>
             (if c = CHR ''-'' then
                (case digits_value 0 False cs of
                   None \<Rightarrow> Inl (ValueError s) | Some n \<Rightarrow> Inr (- int n))
              else if c = CHR ''+'' then
                (case digits_value 0 False cs of
                   None \<Rightarrow> Inl (ValueError s) | Some n \<Rightarrow> Inr (int n))
              else
                (case digits_value 0 False (c # cs) of
                   None \<Rightarrow> Inl (ValueError s) | Some n \<Rightarrow> Inr (int n)))))"

subsection \<open>Substitutions and conditions\<close>

text \<open>
  The substitutions the script builds. \<open>LaunchConfiguration n\<close> is what
  \<^verbatim>\<open>args.n\<close> returns. \<open>PythonExpression\<close>, \<open>OrSubstitution\<close>, \<open>IfCondition\<close>
  and \<open>UnlessCondition\<close> are the launch framework's; \<open>is_valid\<close>, \<open>is_true\<close>,
  \<open>is_false\<close>, \<open>is_equal\<close> and \<open>if_else_substitution\<close> are the calls of
  \<^verbatim>\<open>isaac_ros_launch_utils\<close>.
\<close>

datatype substitution =
    Text string
  | LaunchConfiguration string
  | PythonExpression "substitution list"
  | OrSubstitution substitution substitution
  | is_valid substitution
  | is_true substitution
  | is_false substitution
  | is_equal substitution substitution
  | if_else_substitution substitution substitution substitution

datatype condition = IfCondition substitution | UnlessCondition substitution

text \<open>
  The bodies of \<^verbatim>\<open>lu.is_valid\<close>, \<^verbatim>\<open>lu.is_true\<close> and \<^verbatim>\<open>lu.is_false\<close> are
  not part of the script: which texts count as a set path, as true and as false is theirs
  to say. They are parameters of the model, as predicates on the performed text.
\<close>

record launch_utils =
  lu_is_valid :: "string \<Rightarrow> bool"
  lu_is_true :: "string \<Rightarrow> bool"
  lu_is_false :: "string \<Rightarrow> bool"

type_synonym launch_configurations = "string \<rightharpoonup> string"

text \<open>The one Python expression of the script is \<^verbatim>\<open>int("v") > 4\<close>, with the value of
  \<^verbatim>\<open>num_cameras\<close> pasted for \<^verbatim>\<open>v\<close>. \<open>python_eval\<close> reads a text of that
  shape and returns the text of the result, as \<^verbatim>\<open>PythonExpression\<close> does.\<close>

definition python_eval :: "string \<Rightarrow> error + string" where
  "python_eval e =
     (if take 5 e = ''int('' @ [CHR 0x22] \<and> 11 \<le> length e
         \<and> drop (length e - 6) e = [CHR 0x22] @ '') > 4''
      then
        (case python_int (take (length e - 11) (drop 5 e)) of
           Inl err \<Rightarrow> Inl err
         | Inr n \<Rightarrow> Inr (str_bool (n > 4)))
      else Inl Unmodelled)"

text \<open>The text of a Python boolean, read back.\<close>

definition bool_of_text :: "string \<Rightarrow> error + bool" where
  "bool_of_text s =
     (if s = ''True'' then Inr True else if s = ''False'' then Inr False else Inl Unmodelled)"

fun perform :: "launch_utils \<Rightarrow> launch_configurations \<Rightarrow> substitution \<Rightarrow> error + string"
and perform_substitutions ::
  "launch_utils \<Rightarrow> launch_configurations \<Rightarrow> substitution list \<Rightarrow> error + string" where
  "perform lu ctx (Text s) = Inr s"
| "perform lu ctx (LaunchConfiguration n) =
     (case ctx n of None \<Rightarrow> Inl (SubstitutionFailure n) | Some v \<Rightarrow> Inr v)"
| "perform lu ctx (PythonExpression parts) =
     (case perform_substitutions lu ctx parts of
        Inl err \<Rightarrow> Inl err
      | Inr e \<Rightarrow> python_eval e)"
| "perform lu ctx (OrSubstitution l r) =
     (case perform lu ctx l of
        Inl err \<Rightarrow> Inl err
      | Inr a \<Rightarrow>
          (case bool_of_text a of
             Inl err \<Rightarrow> Inl err
           | Inr x \<Rightarrow>
               (case perform lu ctx r of
                  Inl err \<Rightarrow> Inl err
                | Inr b \<Rightarrow>
                    (case bool_of_text b of
                       Inl err \<Rightarrow> Inl err
                     | Inr y \<Rightarrow> Inr (if x \<or> y then ''true'' else ''false'')))))"
| "perform lu ctx (is_valid s) =
     (case perform lu ctx s of Inl err \<Rightarrow> Inl err | Inr v \<Rightarrow> Inr (str_bool (lu_is_valid lu v)))"
| "perform lu ctx (is_true s) =
     (case perform lu ctx s of Inl err \<Rightarrow> Inl err | Inr v \<Rightarrow> Inr (str_bool (lu_is_true lu v)))"
| "perform lu ctx (is_false s) =
     (case perform lu ctx s of Inl err \<Rightarrow> Inl err | Inr v \<Rightarrow> Inr (str_bool (lu_is_false lu v)))"
| "perform lu ctx (is_equal l r) =
     (case perform lu ctx l of
        Inl err \<Rightarrow> Inl err
      | Inr a \<Rightarrow> (case perform lu ctx r of Inl err \<Rightarrow> Inl err | Inr b \<Rightarrow> Inr (str_bool (a = b))))"
| "perform lu ctx (if_else_substitution c t e) =
     (case perform lu ctx c of
        Inl err \<Rightarrow> Inl err
      | Inr v \<Rightarrow>
          (case bool_of_text v of
             Inl err \<Rightarrow> Inl err
           | Inr b \<Rightarrow> (if b then perform lu ctx t else perform lu ctx e)))"
| "perform_substitutions lu ctx [] = Inr []"
| "perform_substitutions lu ctx (s # ss) =
     (case perform lu ctx s of
        Inl err \<Rightarrow> Inl err
      | Inr a \<Rightarrow>
          (case perform_substitutions lu ctx ss of
             Inl err \<Rightarrow> Inl err
           | Inr b \<Rightarrow> Inr (a @ b)))"

text \<open>
  A condition's text is stripped and lower-cased, then read: true and 1 hold, false and 0
  do not, any other text is an error. Text with a byte outside ASCII is not read by the
  model (Python strips and lower-cases by Unicode's tables).
\<close>

definition lower_char :: "char \<Rightarrow> char" where
  "lower_char c =
     (if 65 \<le> (of_char c :: nat) \<and> (of_char c :: nat) \<le> 90 then char_of (of_char c + 32 :: nat)
      else c)"

definition lower :: "string \<Rightarrow> string" where
  "lower s = map lower_char s"

definition is_ascii :: "char \<Rightarrow> bool" where
  "is_ascii c = ((of_char c :: nat) < 128)"

definition evaluate_condition_expression :: "string \<Rightarrow> error + bool" where
  "evaluate_condition_expression s =
     (if \<not> list_all is_ascii s then Inl Unmodelled
      else
        (let e = lower (strip s) in
         if e = ''true'' \<or> e = ''1'' then Inr True
         else if e = ''false'' \<or> e = ''0'' then Inr False
         else Inl (InvalidConditionExpressionError e)))"

text \<open>An action with no condition always runs.\<close>

fun evaluate_condition ::
  "launch_utils \<Rightarrow> launch_configurations \<Rightarrow> condition option \<Rightarrow> error + bool" where
  "evaluate_condition lu ctx None = Inr True"
| "evaluate_condition lu ctx (Some (IfCondition s)) =
     (case perform lu ctx s of Inl err \<Rightarrow> Inl err | Inr v \<Rightarrow> evaluate_condition_expression v)"
| "evaluate_condition lu ctx (Some (UnlessCondition s)) =
     (case perform lu ctx s of
        Inl err \<Rightarrow> Inl err
      | Inr v \<Rightarrow>
          (case evaluate_condition_expression v of Inl err \<Rightarrow> Inl err | Inr b \<Rightarrow> Inr (\<not> b)))"

subsection \<open>Actions\<close>

text \<open>One call of \<^verbatim>\<open>args.add_arg(name, default, description, choices, cli)\<close>. A
  keyword the call does not pass is \<open>None\<close>.\<close>

record launch_argument =
  arg_name :: string
  arg_default :: py_value
  arg_description :: "string option"
  arg_choices :: "string list option"
  arg_cli :: "bool option"

text \<open>The keywords of \<^verbatim>\<open>Node(...)\<close>: \<^verbatim>\<open>parameters\<close> is a list of dictionaries,
  each an association list in the order of the source.\<close>

record node_spec =
  node_package :: string
  node_executable :: string
  node_name :: string
  node_output :: string
  node_parameters :: "(string \<times> parameter_value) list list"
  node_remappings :: "(string \<times> string) list"

text \<open>
  The actions of the script, one constructor per call:
  \<^item> \<open>LaunchArgument a\<close>, the entry of \<^verbatim>\<open>args.get_launch_actions()\<close> for the
    call of \<^verbatim>\<open>add_arg\<close> that \<open>a\<close> records: it gives the argument its default
    where nothing set it, and refuses a value outside its choices;
  \<^item> \<open>SetParameter name value condition\<close>;
  \<^item> \<open>Include package path launch_arguments condition delay\<close> for \<^verbatim>\<open>lu.include\<close>;
  \<^item> \<open>AssertCondition message condition\<close> for \<^verbatim>\<open>lu.assert_condition\<close>;
  \<^item> \<open>Node spec\<close>;
  \<^item> \<open>AddRobotDescription robot_calibration_path condition\<close>;
  \<^item> \<open>PlayRosbag bag_path additional_bag_play_args condition\<close>;
  \<^item> \<open>ComponentContainer name condition log_level\<close> for \<^verbatim>\<open>lu.component_container\<close>.
\<close>

datatype action =
    LaunchArgument launch_argument
  | SetParameter string parameter_value "condition option"
  | Include string string "(string \<times> substitution) list" "condition option" "string option"
  | AssertCondition string condition
  | Node node_spec
  | AddRobotDescription substitution "condition option"
  | PlayRosbag substitution substitution "condition option"
  | ComponentContainer string "condition option" substitution

text \<open>What an action hands to the framework once its condition holds and its
  substitutions are performed.\<close>

datatype launched =
    ArgumentDeclared string string
  | GlobalParameter string parameter_value
  | Included string string "(string \<times> string) list" "string option"
  | NodeStarted node_spec
  | RobotDescription string
  | RosbagPlayed string string
  | ContainerStarted string string

fun perform_launch_arguments ::
  "launch_utils \<Rightarrow> launch_configurations \<Rightarrow> (string \<times> substitution) list
     \<Rightarrow> error + (string \<times> string) list" where
  "perform_launch_arguments lu ctx [] = Inr []"
| "perform_launch_arguments lu ctx ((k, s) # kvs) =
     (case perform lu ctx s of
        Inl err \<Rightarrow> Inl err
      | Inr v \<Rightarrow>
          (case perform_launch_arguments lu ctx kvs of
             Inl err \<Rightarrow> Inl err
           | Inr vs \<Rightarrow> Inr ((k, v) # vs)))"

text \<open>
  \<open>execute lu ctx a\<close>: \<open>Inr None\<close> when the condition of \<open>a\<close> does not hold,
  \<open>Inr (Some x)\<close> when it holds and \<open>a\<close> hands \<open>x\<close> to the framework,
  \<open>Inl err\<close> when the condition or a substitution fails, and for an assertion whose
  condition holds.
\<close>

fun execute :: "launch_utils \<Rightarrow> launch_configurations \<Rightarrow> action \<Rightarrow> error + launched option" where
  "execute lu ctx (LaunchArgument a) =
     (case ctx (arg_name a) of
        None \<Rightarrow> Inl (SubstitutionFailure (arg_name a))
      | Some v \<Rightarrow>
          (case arg_choices a of
             None \<Rightarrow> Inr (Some (ArgumentDeclared (arg_name a) v))
           | Some cs \<Rightarrow>
               (if v \<in> set cs then Inr (Some (ArgumentDeclared (arg_name a) v))
                else Inl (InvalidChoice (arg_name a) v))))"
| "execute lu ctx (SetParameter name v cond) =
     (case evaluate_condition lu ctx cond of
        Inl err \<Rightarrow> Inl err
      | Inr b \<Rightarrow> Inr (if b then Some (GlobalParameter name v) else None))"
| "execute lu ctx (Include pkg path largs cond delay) =
     (case evaluate_condition lu ctx cond of
        Inl err \<Rightarrow> Inl err
      | Inr b \<Rightarrow>
          (if b then
             (case perform_launch_arguments lu ctx largs of
                Inl err \<Rightarrow> Inl err
              | Inr vs \<Rightarrow> Inr (Some (Included pkg path vs delay)))
           else Inr None))"
| "execute lu ctx (AssertCondition msg cond) =
     (case evaluate_condition lu ctx (Some cond) of
        Inl err \<Rightarrow> Inl err
      | Inr b \<Rightarrow> (if b then Inl (AssertionError msg) else Inr None))"
| "execute lu ctx (Node spec) = Inr (Some (NodeStarted spec))"
| "execute lu ctx (AddRobotDescription path cond) =
     (case evaluate_condition lu ctx cond of
        Inl err \<Rightarrow> Inl err
      | Inr b \<Rightarrow>
          (if b then
             (case perform lu ctx path of
                Inl err \<Rightarrow> Inl err
              | Inr p \<Rightarrow> Inr (Some (RobotDescription p)))
           else Inr None))"
| "execute lu ctx (PlayRosbag bag extra cond) =
     (case evaluate_condition lu ctx cond of
        Inl err \<Rightarrow> Inl err
      | Inr b \<Rightarrow>
          (if b then
             (case perform lu ctx bag of
                Inl err \<Rightarrow> Inl err
              | Inr p \<Rightarrow>
                  (case perform lu ctx extra of
                     Inl err \<Rightarrow> Inl err
                   | Inr x \<Rightarrow> Inr (Some (RosbagPlayed p x))))
           else Inr None))"
| "execute lu ctx (ComponentContainer name cond log_level) =
     (case evaluate_condition lu ctx cond of
        Inl err \<Rightarrow> Inl err
      | Inr b \<Rightarrow>
          (if b then
             (case perform lu ctx log_level of
                Inl err \<Rightarrow> Inl err
              | Inr l \<Rightarrow> Inr (Some (ContainerStarted name l)))
           else Inr None))"

subsection \<open>The script\<close>

text \<open>
  What the script imports and does not define: the container's name
  \<^verbatim>\<open>NVBLOX_CONTAINER_NAME\<close>, the path \<^verbatim>\<open>lu.get_path\<close> returns for the default
  calibration file, and of the enumeration \<^verbatim>\<open>NvbloxMode\<close> the text of its member
  \<^verbatim>\<open>static\<close> and its \<^verbatim>\<open>names()\<close>. They are parameters of the description.
\<close>

record constants =
  NVBLOX_CONTAINER_NAME :: string
  default_urdf_path :: string
  NvbloxMode_static :: string
  NvbloxMode_names :: "string list"

text \<open>Modelled from the spec: \<^verbatim>\<open>str(NvbloxCamera.realsense)\<close> and
  \<^verbatim>\<open>str(NvbloxCamera.multi_realsense)\<close>; the enumeration \<^verbatim>\<open>NvbloxCamera\<close> is
  imported by the script and not defined in it. The spec names the two camera-mode
  strings: \<^verbatim>\<open>realsense\<close> for one camera, \<^verbatim>\<open>multi_realsense\<close> otherwise.\<close>

definition NvbloxCamera_realsense :: string where
  "NvbloxCamera_realsense = ''realsense''"

definition NvbloxCamera_multi_realsense :: string where
  "NvbloxCamera_multi_realsense = ''multi_realsense''"

text \<open>The eleven calls of \<^verbatim>\<open>args.add_arg\<close>, in order.\<close>

definition declared_arguments :: "constants \<Rightarrow> launch_argument list" where
  "declared_arguments c =
   [ \<lparr> arg_name = ''rosbag'', arg_default = PyStr ''None'',
       arg_description = Some ''Path to rosbag (running on sensor if not set).'',
       arg_choices = None, arg_cli = Some True \<rparr>,
     \<lparr> arg_name = ''rosbag_args'', arg_default = PyStr [],
       arg_description = Some ''Additional args for ros2 bag play.'',
       arg_choices = None, arg_cli = Some True \<rparr>,
     \<lparr> arg_name = ''log_level'', arg_default = PyStr ''info'',
       arg_description = None,
       arg_choices = Some [''debug'', ''info'', ''warn''], arg_cli = Some True \<rparr>,
     \<lparr> arg_name = ''num_cameras'', arg_default = PyInt 1,
       arg_description = Some ''How many cameras to use.'',
       arg_choices = None, arg_cli = Some True \<rparr>,
     \<lparr> arg_name = ''camera_serial_numbers'', arg_default = PyStr [],
       arg_description =
         Some ''List of the serial no of the extra cameras. (comma separated)'',
       arg_choices = None, arg_cli = Some True \<rparr>,
     \<lparr> arg_name = ''multicam_urdf_path'', arg_default = PyStr (default_urdf_path c),
       arg_description =
         Some ''Path to a URDF file describing the camera rig extrinsics. Only used in multicam.'',
       arg_choices = None, arg_cli = Some True \<rparr>,
     \<lparr> arg_name = ''mode'', arg_default = PyStr (NvbloxMode_static c),
       arg_description = Some ''The nvblox mode.'',
       arg_choices = Some (NvbloxMode_names c), arg_cli = Some True \<rparr>,
     \<lparr> arg_name = ''attach_to_container'', arg_default = PyStr ''False'',
       arg_description = Some ''Add components to an existing component container.'',
       arg_choices = None, arg_cli = Some True \<rparr>,
     \<lparr> arg_name = ''container_name'', arg_default = PyStr (NVBLOX_CONTAINER_NAME c),
       arg_description = Some ''Name of the component container.'',
       arg_choices = None, arg_cli = None \<rparr>,
     \<lparr> arg_name = ''run_realsense'', arg_default = PyStr ''True'',
       arg_description = Some ''Launch Realsense drivers'',
       arg_choices = None, arg_cli = None \<rparr>,
     \<lparr> arg_name = ''navigation'', arg_default = PyBool True,
       arg_description = Some ''Whether to enable nav2 for navigation.'',
       arg_choices = None, arg_cli = Some True \<rparr> ]"

text \<open>The launch configurations before any action runs: each declared argument at the
  text of its default, overridden by what the command line (or an including launch
  file) sets.\<close>

definition default_configurations :: "constants \<Rightarrow> launch_configurations" where
  "default_configurations c =
     map_of (map (\<lambda>a. (arg_name a, py_str (arg_default a))) (declared_arguments c))"

definition launch_context ::
  "constants \<Rightarrow> launch_configurations \<Rightarrow> launch_configurations" where
  "launch_context c cli = default_configurations c ++ cli"

text \<open>Line 71: globally set \<^verbatim>\<open>use_sim_time\<close> when running from a bag.\<close>

definition set_use_sim_time :: action where
  "set_use_sim_time =
     SetParameter ''use_sim_time'' (ParamBool True)
       (Some (IfCondition (is_valid (LaunchConfiguration ''rosbag''))))"

text \<open>Line 74: the navigation launch file.\<close>

definition navigation_include :: "constants \<Rightarrow> action" where
  "navigation_include c =
     Include ''nvblox_examples_bringup''
       ''launch/navigation/nvblox_newton_navigation.launch.py''
       [(''container_name'', Text (NVBLOX_CONTAINER_NAME c)),
        (''mode'', LaunchConfiguration ''mode'')]
       (Some (IfCondition (is_true (LaunchConfiguration ''navigation''))))
       None"

text \<open>Lines 85 to 90: single or multi realsense.\<close>

definition is_multi_cam :: condition where
  "is_multi_cam = UnlessCondition (is_equal (LaunchConfiguration ''num_cameras'') (Text ''1''))"

definition camera_mode :: substitution where
  "camera_mode =
     if_else_substitution
       (is_equal (LaunchConfiguration ''num_cameras'') (Text ''1''))
       (Text NvbloxCamera_realsense)
       (Text NvbloxCamera_multi_realsense)"

text \<open>Line 92: only up to 4 cameras are supported. The double quotes of the Python
  expression are the character 0x22.\<close>

definition num_cameras_assertion :: action where
  "num_cameras_assertion =
     AssertCondition
       ''Up to 4 cameras have been tested! num_cameras must be less than 5.''
       (IfCondition
          (PythonExpression
             [Text (''int('' @ [CHR 0x22]),
              LaunchConfiguration ''num_cameras'',
              Text ([CHR 0x22] @ '') > 4'')]))"

text \<open>Line 98.\<close>

definition run_rs_driver :: condition where
  "run_rs_driver =
     UnlessCondition
       (OrSubstitution
          (is_valid (LaunchConfiguration ''rosbag''))
          (is_false (LaunchConfiguration ''run_realsense'')))"

text \<open>Lines 102 to 137: the realsense driver, visual SLAM and nvblox launch files.\<close>

definition realsense_include :: action where
  "realsense_include =
     Include ''nvblox_examples_bringup'' ''launch/sensors/realsense.launch.py''
       [(''container_name'', LaunchConfiguration ''container_name''),
        (''camera_serial_numbers'', LaunchConfiguration ''camera_serial_numbers''),
        (''num_cameras'', LaunchConfiguration ''num_cameras'')]
       (Some run_rs_driver)
       None"

definition vslam_include :: action where
  "vslam_include =
     Include ''nvblox_examples_bringup'' ''launch/perception/vslam.launch.py''
       [(''container_name'', LaunchConfiguration ''container_name''),
        (''camera'', camera_mode)]
       None
       (Some ''1.0'')"

definition nvblox_include :: action where
  "nvblox_include =
     Include ''nvblox_examples_bringup'' ''launch/perception/nvblox.launch.py''
       [(''container_name'', LaunchConfiguration ''container_name''),
        (''mode'', LaunchConfiguration ''mode''),
        (''camera'', camera_mode),
        (''num_cameras'', LaunchConfiguration ''num_cameras'')]
       None
       None"

text \<open>Lines 140 to 185: the EKF node fusing the IMU and visual SLAM odometry.\<close>

definition odom0_config :: "bool list" where
  "odom0_config =
     [True, True, False,
      False, False, True,
      False, False, False,
      False, False, True,
      False, False, False]"

definition imu0_config :: "bool list" where
  "imu0_config =
     [False, False, False,
      True, True, True,
      False, False, False,
      True, True, True,
      True, True, True]"

definition ekf_parameters :: "(string \<times> parameter_value) list" where
  "ekf_parameters =
     [(''use_sim_time'', ParamBool False),
      (''frequency'', ParamFloat ''30.0''),
      (''sensor_timeout'', ParamFloat ''0.1''),
      (''two_d_mode'', ParamBool False),
      (''map_frame'', ParamStr ''map''),
      (''odom_frame'', ParamStr ''odom''),
      (''base_link_frame'', ParamStr ''camera0_link''),
      (''world_frame'', ParamStr ''odom''),
      (''odom0'', ParamStr ''/visual_slam/tracking/odometry''),
      (''odom0_config'', ParamBoolList odom0_config),
      (''odom0_queue_size'', ParamInt 10),
      (''odom0_nodelay'', ParamBool True),
      (''odom0_differential'', ParamBool False),
      (''odom0_relative'', ParamBool False),
      (''imu0'', ParamStr ''/imu_data''),
      (''imu0_config'', ParamBoolList imu0_config),
      (''imu0_queue_size'', ParamInt 10),
      (''imu0_nodelay'', ParamBool True),
      (''imu0_differential'', ParamBool False),
      (''imu0_relative'', ParamBool False),
      (''imu0_remove_gravitational_acceleration'', ParamBool True)]"

definition ekf_filter_node :: node_spec where
  "ekf_filter_node =
     \<lparr> node_package = ''robot_localization'',
       node_executable = ''ekf_node'',
       node_name = ''ekf_filter_node'',
       node_output = ''screen'',
       node_parameters = [ekf_parameters],
       node_remappings = [(''/odometry/filtered'', ''/odom'')] \<rparr>"

text \<open>Lines 188 to 198: the transforms for multi realsense, and the bag player.\<close>

definition robot_description :: action where
  "robot_description =
     AddRobotDescription (LaunchConfiguration ''multicam_urdf_path'') (Some is_multi_cam)"

definition rosbag_play :: action where
  "rosbag_play =
     PlayRosbag (LaunchConfiguration ''rosbag'') (LaunchConfiguration ''rosbag_args'')
       (Some (IfCondition (is_valid (LaunchConfiguration ''rosbag''))))"

text \<open>Line 209: the component container.\<close>

definition container :: "constants \<Rightarrow> action" where
  "container c =
     ComponentContainer (NVBLOX_CONTAINER_NAME c)
       (Some (UnlessCondition (LaunchConfiguration ''attach_to_container'')))
       (LaunchConfiguration ''log_level'')"

definition generate_launch_description :: "constants \<Rightarrow> action list" where
  "generate_launch_description c =
     map LaunchArgument (declared_arguments c) @
     [ set_use_sim_time,
       navigation_include c,
       num_cameras_assertion,
       realsense_include,
       vslam_include,
       nvblox_include,
       Node ekf_filter_node,
       robot_description,
       rosbag_play,
       container c ]"

text \<open>Selectors over a description.\<close>

fun is_node :: "action \<Rightarrow> bool" where
  "is_node (Node spec) = True"
| "is_node a = False"

fun is_component_container :: "action \<Rightarrow> bool" where
  "is_component_container (ComponentContainer name cond log_level) = True"
| "is_component_container a = False"


fun is_set_parameter :: "action \<Rightarrow> bool" where
  "is_set_parameter (SetParameter name v cond) = True"
| "is_set_parameter a = False"

fun includes_path :: "string \<Rightarrow> action \<Rightarrow> bool" where
  "includes_path p (Include pkg path largs cond delay) = (path = p)"
| "includes_path p a = False"


fun launch_arguments :: "action \<Rightarrow> (string \<times> substitution) list" where
  "launch_arguments (Include pkg path largs cond delay) = largs"
| "launch_arguments a = []"

text \<open>The value of argument \<open>n\<close> whose default text is \<open>d\<close>: what was set, or else
  the default.\<close>

definition configured :: "string \<Rightarrow> launch_configurations \<Rightarrow> string \<Rightarrow> string" where
  "configured d cli n = (case cli n of Some v \<Rightarrow> v | None \<Rightarrow> d)"

text \<open>One reading of the three predicates of \<^verbatim>\<open>isaac_ros_launch_utils\<close>, to run the
  description on concrete arguments: a path is set unless it is empty, none or null, and
  true and false are read without regard to case.\<close>

definition example_launch_utils :: launch_utils where
  "example_launch_utils =
     \<lparr> lu_is_valid = (\<lambda>s. lower s \<noteq> [] \<and> lower s \<noteq> ''none'' \<and> lower s \<noteq> ''null''),
       lu_is_true = (\<lambda>s. lower s = ''true''),
       lu_is_false = (\<lambda>s. lower s = ''false'') \<rparr>"

definition example_constants :: constants where
  "example_constants =
     \<lparr> NVBLOX_CONTAINER_NAME = ''nvblox_container'',
       default_urdf_path = ''config/urdf/4_realsense_carter_example_calibration.urdf.xacro'',
       NvbloxMode_static = ''static'',
       NvbloxMode_names = [''static'', ''dynamic''] \<rparr>"

text \<open>Selectors over what the actions hand to the framework.\<close>

fun is_node_started :: "error + launched option \<Rightarrow> bool" where
  "is_node_started (Inr (Some (NodeStarted spec))) = True"
| "is_node_started r = False"

fun is_container_started :: "error + launched option \<Rightarrow> bool" where
  "is_container_started (Inr (Some (ContainerStarted name log_level))) = True"
| "is_container_started r = False"

section \<open>Properties\<close>

subsection \<open>The launch configurations\<close>

text \<open>Every argument the script adds has a value in the launch context: what was set for
  it, or else the text of its default.\<close>

lemma launch_context_values:
  "launch_context c cli ''rosbag'' = Some (configured ''None'' cli ''rosbag'')"
  "launch_context c cli ''rosbag_args'' = Some (configured [] cli ''rosbag_args'')"
  "launch_context c cli ''log_level'' = Some (configured ''info'' cli ''log_level'')"
  "launch_context c cli ''num_cameras'' = Some (configured ''1'' cli ''num_cameras'')"
  "launch_context c cli ''camera_serial_numbers'' =
     Some (configured [] cli ''camera_serial_numbers'')"
  "launch_context c cli ''multicam_urdf_path'' =
     Some (configured (default_urdf_path c) cli ''multicam_urdf_path'')"
  "launch_context c cli ''mode'' = Some (configured (NvbloxMode_static c) cli ''mode'')"
  "launch_context c cli ''attach_to_container'' =
     Some (configured ''False'' cli ''attach_to_container'')"
  "launch_context c cli ''container_name'' =
     Some (configured (NVBLOX_CONTAINER_NAME c) cli ''container_name'')"
  "launch_context c cli ''run_realsense'' = Some (configured ''True'' cli ''run_realsense'')"
  "launch_context c cli ''navigation'' = Some (configured ''True'' cli ''navigation'')"
  by (simp_all add: launch_context_def default_configurations_def declared_arguments_def
      configured_def map_add_def str_int_def str_bool_def digit_char_def char_of_eq_iff
      split: option.splits)

lemma configured_upd [simp]:
  "configured d (cli(n \<mapsto> v)) n = v"
  "configured d (cli(n := None)) n = d"
  "m \<noteq> n \<Longrightarrow> configured d (cli(m := x)) n = configured d cli n"
  by (simp_all add: configured_def)

text \<open>The text of a Python boolean reads back as that boolean, as a condition and as an
  operand.\<close>

lemma evaluate_condition_expression_str_bool [simp]:
  "evaluate_condition_expression (str_bool b) = Inr b"
  by (cases b) (simp_all add: evaluate_condition_expression_def str_bool_def is_ascii_def
      strip_def is_space_def lower_def lower_char_def char_of_eq_iff)

lemma bool_of_text_str_bool [simp]: "bool_of_text (str_bool b) = Inr b"
  by (cases b) (simp_all add: bool_of_text_def str_bool_def)

lemma evaluate_condition_expression_true_false [simp]:
  "evaluate_condition_expression ''true'' = Inr True"
  "evaluate_condition_expression ''false'' = Inr False"
  "evaluate_condition_expression ''True'' = Inr True"
  "evaluate_condition_expression ''False'' = Inr False"
  by (simp_all add: evaluate_condition_expression_def is_ascii_def
      strip_def is_space_def lower_def lower_char_def char_of_eq_iff)

subsection \<open>The global parameter\<close>

text \<open>
  Claim C4. The description holds one \<^verbatim>\<open>SetParameter\<close> action. Under every assignment
  of the arguments it sets the global parameter \<^verbatim>\<open>use_sim_time\<close> to true exactly when
  \<^verbatim>\<open>lu.is_valid\<close> holds of the value of \<^verbatim>\<open>rosbag\<close>, and is conditioned off
  otherwise; with \<^verbatim>\<open>rosbag\<close> left at its default, the text None, it is off for every
  \<^verbatim>\<open>is_valid\<close> that refuses that text.
\<close>

theorem use_sim_time_forced_iff_rosbag_valid:
  "filter is_set_parameter (generate_launch_description c) = [set_use_sim_time]
   \<and> execute lu (launch_context c cli) set_use_sim_time =
       Inr (if lu_is_valid lu (configured ''None'' cli ''rosbag'')
            then Some (GlobalParameter ''use_sim_time'' (ParamBool True)) else None)
   \<and> (\<not> lu_is_valid lu ''None'' \<longrightarrow>
        execute lu (launch_context c (cli(''rosbag'' := None))) set_use_sim_time = Inr None)"
proof -
  have one: "filter is_set_parameter (generate_launch_description c) = [set_use_sim_time]"
    by (simp add: generate_launch_description_def declared_arguments_def set_use_sim_time_def
        navigation_include_def num_cameras_assertion_def realsense_include_def
        vslam_include_def nvblox_include_def robot_description_def rosbag_play_def
        container_def)
  have run: "execute lu (launch_context c cli') set_use_sim_time =
       Inr (if lu_is_valid lu (configured ''None'' cli' ''rosbag'')
            then Some (GlobalParameter ''use_sim_time'' (ParamBool True)) else None)" for cli'
    by (simp add: set_use_sim_time_def launch_context_values)
  show ?thesis
    using one run [of cli] run [of "cli(''rosbag'' := None)"] by simp
qed

theorem use_sim_time_forced_iff_rosbag_valid_witness:
  "\<not> lu_is_valid example_launch_utils ''None''
   \<and> execute example_launch_utils
       (launch_context example_constants (Map.empty(''rosbag'' := None))) set_use_sim_time
     = Inr None
   \<and> execute example_launch_utils
       (launch_context example_constants [''rosbag'' \<mapsto> ''/data/run1'']) set_use_sim_time
     = Inr (Some (GlobalParameter ''use_sim_time'' (ParamBool True)))"
  using use_sim_time_forced_iff_rosbag_valid
          [of example_constants example_launch_utils "[''rosbag'' \<mapsto> ''/data/run1'']"]
        use_sim_time_forced_iff_rosbag_valid
          [of example_constants example_launch_utils Map.empty]
  by (simp add: example_launch_utils_def lower_def lower_char_def char_of_eq_iff)

subsection \<open>What each action of the script does\<close>

lemmas description_defs =
  generate_launch_description_def declared_arguments_def set_use_sim_time_def
  navigation_include_def num_cameras_assertion_def realsense_include_def
  vslam_include_def nvblox_include_def robot_description_def rosbag_play_def
  container_def

text \<open>Only a \<open>Node\<close> action starts a node, and only a \<open>ComponentContainer\<close> action a
  container.\<close>

lemma node_started_only: "is_node_started (execute lu ctx a) = is_node a"
  by (cases a) (auto split: sum.splits option.splits if_splits)

lemma container_started_only:
  "is_container_started (execute lu ctx a) \<Longrightarrow> is_component_container a"
  by (cases a) (auto split: sum.splits option.splits if_splits)

lemma filter_started:
  assumes "\<And>a. P (f a) \<Longrightarrow> Q a"
  shows "filter P (map f xs) = map f (filter (\<lambda>a. P (f a)) (filter Q xs))"
  using assms by (induction xs) auto

lemma nodes_of_description:
  "filter is_node (generate_launch_description c) = [Node ekf_filter_node]"
  by (simp add: description_defs)

lemma nodes_started:
  "filter is_node_started (map (execute lu ctx) (generate_launch_description c))
     = [Inr (Some (NodeStarted ekf_filter_node))]"
proof -
  have "filter is_node_started (map (execute lu ctx) (generate_launch_description c))
     = map (execute lu ctx) (filter is_node (generate_launch_description c))"
    by (simp add: filter_map comp_def node_started_only)
  then show ?thesis by (simp add: nodes_of_description)
qed

lemma containers_of_description:
  "filter is_component_container (generate_launch_description c) = [container c]"
  by (simp add: description_defs)

lemma execute_container:
  "execute lu (launch_context c cli) (container c) =
     (case evaluate_condition_expression (configured ''False'' cli ''attach_to_container'') of
        Inl err \<Rightarrow> Inl err
      | Inr b \<Rightarrow>
          Inr (if b then None
               else Some (ContainerStarted (NVBLOX_CONTAINER_NAME c)
                            (configured ''info'' cli ''log_level''))))"
  by (simp add: container_def launch_context_values split: sum.splits)

lemma containers_started:
  "filter is_container_started
     (map (execute lu (launch_context c cli)) (generate_launch_description c))
   = filter is_container_started [execute lu (launch_context c cli) (container c)]"
proof -
  have "filter is_container_started
          (map (execute lu (launch_context c cli)) (generate_launch_description c))
        = map (execute lu (launch_context c cli))
            (filter (\<lambda>a. is_container_started (execute lu (launch_context c cli) a))
               (filter is_component_container (generate_launch_description c)))"
    by (rule filter_started) (rule container_started_only)
  then show ?thesis by (simp add: containers_of_description)
qed

lemma execute_navigation_include:
  "execute lu (launch_context c cli) (navigation_include c) =
     Inr (if lu_is_true lu (configured ''True'' cli ''navigation'')
          then Some (Included ''nvblox_examples_bringup''
                 ''launch/navigation/nvblox_newton_navigation.launch.py''
                 [(''container_name'', NVBLOX_CONTAINER_NAME c),
                  (''mode'', configured (NvbloxMode_static c) cli ''mode'')] None)
          else None)"
  by (simp add: navigation_include_def launch_context_values)

lemma execute_realsense_include:
  "execute lu (launch_context c cli) realsense_include =
     Inr (if \<not> lu_is_valid lu (configured ''None'' cli ''rosbag'')
             \<and> \<not> lu_is_false lu (configured ''True'' cli ''run_realsense'')
          then Some (Included ''nvblox_examples_bringup'' ''launch/sensors/realsense.launch.py''
                 [(''container_name'',
                     configured (NVBLOX_CONTAINER_NAME c) cli ''container_name''),
                  (''camera_serial_numbers'', configured [] cli ''camera_serial_numbers''),
                  (''num_cameras'', configured ''1'' cli ''num_cameras'')] None)
          else None)"
  by (simp add: realsense_include_def run_rs_driver_def launch_context_values)

lemma perform_camera_mode:
  "perform lu (launch_context c cli) camera_mode =
     Inr (if configured ''1'' cli ''num_cameras'' = ''1''
          then ''realsense'' else ''multi_realsense'')"
  by (simp add: camera_mode_def launch_context_values NvbloxCamera_realsense_def
      NvbloxCamera_multi_realsense_def)

lemma execute_vslam_include:
  "execute lu (launch_context c cli) vslam_include =
     Inr (Some (Included ''nvblox_examples_bringup'' ''launch/perception/vslam.launch.py''
       [(''container_name'', configured (NVBLOX_CONTAINER_NAME c) cli ''container_name''),
        (''camera'', if configured ''1'' cli ''num_cameras'' = ''1''
                     then ''realsense'' else ''multi_realsense'')]
       (Some ''1.0'')))"
  by (simp add: vslam_include_def perform_camera_mode launch_context_values)

lemma execute_nvblox_include:
  "execute lu (launch_context c cli) nvblox_include =
     Inr (Some (Included ''nvblox_examples_bringup'' ''launch/perception/nvblox.launch.py''
       [(''container_name'', configured (NVBLOX_CONTAINER_NAME c) cli ''container_name''),
        (''mode'', configured (NvbloxMode_static c) cli ''mode''),
        (''camera'', if configured ''1'' cli ''num_cameras'' = ''1''
                     then ''realsense'' else ''multi_realsense''),
        (''num_cameras'', configured ''1'' cli ''num_cameras'')]
       None))"
  by (simp add: nvblox_include_def perform_camera_mode launch_context_values)

subsection \<open>The fusion node\<close>

text \<open>
  Claim C1. The description holds exactly one node, the EKF node, and under every
  assignment of the arguments (and every reading of the helper predicates) exactly one
  node is started, with that specification. Its parameter block is one dictionary with
  distinct keys, which gives the input topics \<^verbatim>\<open>/visual_slam/tracking/odometry\<close>
  (odom0) and \<^verbatim>\<open>/imu_data\<close> (imu0), the frames map, odom (odom and world frame) and
  camera0\_link, and the two axis-selection lists of 15 booleans; its only remapping takes
  \<^verbatim>\<open>/odometry/filtered\<close> to \<^verbatim>\<open>/odom\<close>.
\<close>

theorem ekf_node_fixed:
  "filter is_node (generate_launch_description c) = [Node ekf_filter_node]
   \<and> filter is_node_started
       (map (execute lu (launch_context c cli)) (generate_launch_description c))
     = [Inr (Some (NodeStarted ekf_filter_node))]
   \<and> node_package ekf_filter_node = ''robot_localization''
   \<and> node_executable ekf_filter_node = ''ekf_node''
   \<and> node_name ekf_filter_node = ''ekf_filter_node''
   \<and> node_parameters ekf_filter_node = [ekf_parameters]
   \<and> distinct (map fst ekf_parameters)
   \<and> map_of ekf_parameters ''odom0'' = Some (ParamStr ''/visual_slam/tracking/odometry'')
   \<and> map_of ekf_parameters ''imu0'' = Some (ParamStr ''/imu_data'')
   \<and> map_of ekf_parameters ''map_frame'' = Some (ParamStr ''map'')
   \<and> map_of ekf_parameters ''odom_frame'' = Some (ParamStr ''odom'')
   \<and> map_of ekf_parameters ''world_frame'' = Some (ParamStr ''odom'')
   \<and> map_of ekf_parameters ''base_link_frame'' = Some (ParamStr ''camera0_link'')
   \<and> map_of ekf_parameters ''odom0_config'' = Some (ParamBoolList
        [True, True, False, False, False, True, False, False, False,
         False, False, True, False, False, False])
   \<and> map_of ekf_parameters ''imu0_config'' = Some (ParamBoolList
        [False, False, False, True, True, True, False, False, False,
         True, True, True, True, True, True])
   \<and> length odom0_config = 15 \<and> length imu0_config = 15
   \<and> node_remappings ekf_filter_node = [(''/odometry/filtered'', ''/odom'')]"
proof -
  have static:
    "node_package ekf_filter_node = ''robot_localization''
     \<and> node_executable ekf_filter_node = ''ekf_node''
     \<and> node_name ekf_filter_node = ''ekf_filter_node''
     \<and> node_parameters ekf_filter_node = [ekf_parameters]
     \<and> node_remappings ekf_filter_node = [(''/odometry/filtered'', ''/odom'')]"
    by (simp add: ekf_filter_node_def)
  have params:
    "distinct (map fst ekf_parameters)
     \<and> map_of ekf_parameters ''odom0'' = Some (ParamStr ''/visual_slam/tracking/odometry'')
     \<and> map_of ekf_parameters ''imu0'' = Some (ParamStr ''/imu_data'')
     \<and> map_of ekf_parameters ''map_frame'' = Some (ParamStr ''map'')
     \<and> map_of ekf_parameters ''odom_frame'' = Some (ParamStr ''odom'')
     \<and> map_of ekf_parameters ''world_frame'' = Some (ParamStr ''odom'')
     \<and> map_of ekf_parameters ''base_link_frame'' = Some (ParamStr ''camera0_link'')
     \<and> map_of ekf_parameters ''odom0_config'' = Some (ParamBoolList
          [True, True, False, False, False, True, False, False, False,
           False, False, True, False, False, False])
     \<and> map_of ekf_parameters ''imu0_config'' = Some (ParamBoolList
          [False, False, False, True, True, True, False, False, False,
           True, True, True, True, True, True])
     \<and> length odom0_config = 15 \<and> length imu0_config = 15"
    by (simp add: ekf_parameters_def odom0_config_def imu0_config_def)
  show ?thesis
    using static params nodes_of_description [of c] nodes_started [of lu "launch_context c cli" c]
    by simp
qed

text \<open>
  Claim C10. The parameter block of the EKF node sets \<^verbatim>\<open>use_sim_time\<close> to False. Under
  every assignment of the arguments the node is started with that block, also when
  \<^verbatim>\<open>rosbag\<close> is valid and the global \<^verbatim>\<open>SetParameter\<close> sets \<^verbatim>\<open>use_sim_time\<close>
  to True.
\<close>

theorem ekf_use_sim_time_false:
  "map (\<lambda>ps. map_of ps ''use_sim_time'') (node_parameters ekf_filter_node)
     = [Some (ParamBool False)]
   \<and> map (execute lu (launch_context c cli)) [set_use_sim_time, Node ekf_filter_node]
     = [Inr (if lu_is_valid lu (configured ''None'' cli ''rosbag'')
             then Some (GlobalParameter ''use_sim_time'' (ParamBool True)) else None),
        Inr (Some (NodeStarted ekf_filter_node))]
   \<and> filter is_node_started
       (map (execute lu (launch_context c cli)) (generate_launch_description c))
     = [Inr (Some (NodeStarted ekf_filter_node))]"
proof -
  have block: "map (\<lambda>ps. map_of ps ''use_sim_time'') (node_parameters ekf_filter_node)
     = [Some (ParamBool False)]"
    by (simp add: ekf_filter_node_def ekf_parameters_def)
  have global: "execute lu (launch_context c cli) set_use_sim_time
     = Inr (if lu_is_valid lu (configured ''None'' cli ''rosbag'')
            then Some (GlobalParameter ''use_sim_time'' (ParamBool True)) else None)"
    by (simp add: set_use_sim_time_def launch_context_values)
  show ?thesis
    using block global nodes_started [of lu "launch_context c cli" c] by simp
qed

subsection \<open>The conditional sub-launches and the container\<close>

text \<open>
  Claim C5. The description includes \<^verbatim>\<open>launch/sensors/realsense.launch.py\<close> once, and
  under every assignment of the arguments that inclusion runs exactly when
  \<^verbatim>\<open>lu.is_valid\<close> does not hold of \<^verbatim>\<open>rosbag\<close> and \<^verbatim>\<open>lu.is_false\<close> does not
  hold of \<^verbatim>\<open>run_realsense\<close>; it is skipped as soon as one of the two holds.
\<close>

theorem realsense_driver_included_iff:
  "filter (includes_path ''launch/sensors/realsense.launch.py'') (generate_launch_description c)
     = [realsense_include]
   \<and> execute lu (launch_context c cli) realsense_include =
       Inr (if \<not> lu_is_valid lu (configured ''None'' cli ''rosbag'')
               \<and> \<not> lu_is_false lu (configured ''True'' cli ''run_realsense'')
            then Some (Included ''nvblox_examples_bringup''
                   ''launch/sensors/realsense.launch.py''
                   [(''container_name'',
                       configured (NVBLOX_CONTAINER_NAME c) cli ''container_name''),
                    (''camera_serial_numbers'', configured [] cli ''camera_serial_numbers''),
                    (''num_cameras'', configured ''1'' cli ''num_cameras'')] None)
            else None)"
proof -
  have "filter (includes_path ''launch/sensors/realsense.launch.py'')
          (generate_launch_description c) = [realsense_include]"
    by (simp add: description_defs)
  then show ?thesis
    using execute_realsense_include [of lu c cli] by simp
qed

text \<open>
  Claim C6. The description holds one component-container action, named by
  \<^verbatim>\<open>NVBLOX_CONTAINER_NAME\<close>. With \<^verbatim>\<open>attach_to_container\<close> set to True no container
  is started by any action of the description; with it set to False, or left at its
  default, exactly one is started, with the value of \<^verbatim>\<open>log_level\<close>.
\<close>

theorem container_unless_attached:
  "filter is_component_container (generate_launch_description c) = [container c]
   \<and> filter is_container_started
       (map (execute lu (launch_context c (cli(''attach_to_container'' \<mapsto> ''True''))))
          (generate_launch_description c)) = []
   \<and> filter is_container_started
       (map (execute lu (launch_context c (cli(''attach_to_container'' \<mapsto> ''False''))))
          (generate_launch_description c))
     = [Inr (Some (ContainerStarted (NVBLOX_CONTAINER_NAME c)
                     (configured ''info'' cli ''log_level'')))]
   \<and> filter is_container_started
       (map (execute lu (launch_context c (cli(''attach_to_container'' := None))))
          (generate_launch_description c))
     = [Inr (Some (ContainerStarted (NVBLOX_CONTAINER_NAME c)
                     (configured ''info'' cli ''log_level'')))]"
proof -
  have attached:
    "filter is_container_started
       (map (execute lu (launch_context c (cli(''attach_to_container'' \<mapsto> ''True''))))
          (generate_launch_description c)) = []"
    by (simp add: containers_started execute_container)
  have fresh:
    "filter is_container_started
       (map (execute lu (launch_context c (cli(''attach_to_container'' \<mapsto> ''False''))))
          (generate_launch_description c))
     = [Inr (Some (ContainerStarted (NVBLOX_CONTAINER_NAME c)
                     (configured ''info'' cli ''log_level'')))]"
    by (simp add: containers_started execute_container)
  have default:
    "filter is_container_started
       (map (execute lu (launch_context c (cli(''attach_to_container'' := None))))
          (generate_launch_description c))
     = [Inr (Some (ContainerStarted (NVBLOX_CONTAINER_NAME c)
                     (configured ''info'' cli ''log_level'')))]"
    by (simp add: containers_started execute_container)
  show ?thesis
    using containers_of_description [of c] attached fresh default by simp
qed

text \<open>
  Claim C7. The description includes
  \<^verbatim>\<open>launch/navigation/nvblox_newton_navigation.launch.py\<close> once, and under every
  assignment of the arguments that inclusion runs exactly when \<^verbatim>\<open>lu.is_true\<close> holds of
  the value of \<^verbatim>\<open>navigation\<close>. The default of \<^verbatim>\<open>navigation\<close> is the boolean True,
  whose text is True; so with the argument left alone the navigation launch file is
  included, for every \<^verbatim>\<open>is_true\<close> that accepts that text.
\<close>

theorem navigation_included_iff:
  "filter (includes_path ''launch/navigation/nvblox_newton_navigation.launch.py'')
     (generate_launch_description c) = [navigation_include c]
   \<and> execute lu (launch_context c cli) (navigation_include c) =
       Inr (if lu_is_true lu (configured ''True'' cli ''navigation'')
            then Some (Included ''nvblox_examples_bringup''
                   ''launch/navigation/nvblox_newton_navigation.launch.py''
                   [(''container_name'', NVBLOX_CONTAINER_NAME c),
                    (''mode'', configured (NvbloxMode_static c) cli ''mode'')] None)
            else None)
   \<and> map arg_default (filter (\<lambda>a. arg_name a = ''navigation'') (declared_arguments c))
     = [PyBool True]
   \<and> py_str (PyBool True) = ''True''
   \<and> (lu_is_true lu ''True'' \<longrightarrow>
        execute lu (launch_context c (cli(''navigation'' := None))) (navigation_include c) =
          Inr (Some (Included ''nvblox_examples_bringup''
                 ''launch/navigation/nvblox_newton_navigation.launch.py''
                 [(''container_name'', NVBLOX_CONTAINER_NAME c),
                  (''mode'', configured (NvbloxMode_static c) cli ''mode'')] None)))"
proof -
  have one: "filter (includes_path ''launch/navigation/nvblox_newton_navigation.launch.py'')
     (generate_launch_description c) = [navigation_include c]"
    by (simp add: description_defs)
  have dflt: "map arg_default (filter (\<lambda>a. arg_name a = ''navigation'') (declared_arguments c))
     = [PyBool True] \<and> py_str (PyBool True) = ''True''"
    by (simp add: declared_arguments_def str_bool_def)
  show ?thesis
    using one dflt execute_navigation_include [of lu c cli]
      execute_navigation_include [of lu c "cli(''navigation'' := None)"]
    by simp
qed

theorem navigation_included_iff_witness:
  "lu_is_true example_launch_utils ''True''
   \<and> execute example_launch_utils (launch_context example_constants Map.empty)
       (navigation_include example_constants) =
       Inr (Some (Included ''nvblox_examples_bringup''
              ''launch/navigation/nvblox_newton_navigation.launch.py''
              [(''container_name'', ''nvblox_container''), (''mode'', ''static'')] None))
   \<and> execute example_launch_utils
       (launch_context example_constants [''navigation'' \<mapsto> ''False''])
       (navigation_include example_constants) = Inr None"
  using navigation_included_iff [of example_constants example_launch_utils Map.empty]
        navigation_included_iff
          [of example_constants example_launch_utils "[''navigation'' \<mapsto> ''False'']"]
  by (simp add: example_launch_utils_def example_constants_def configured_def
      lower_def lower_char_def char_of_eq_iff)

subsection \<open>The declared arguments\<close>


subsection \<open>The container name\<close>

text \<open>
  Claim C9. Two assignments of the arguments that differ only in \<^verbatim>\<open>container_name\<close>
  are \<open>cli(container_name := x)\<close> and \<open>cli(container_name := y)\<close>. Under both the
  navigation inclusion does the same and the component-container action does the same:
  the inclusion is handed the constant \<^verbatim>\<open>NVBLOX_CONTAINER_NAME\<close>, which is also the
  container's name. The realsense, visual SLAM and nvblox inclusions are written with the
  argument, and the latter two (which have no condition) are handed its value.
\<close>

theorem container_name_ignored_by_navigation_and_container:
  "execute lu (launch_context c (cli(''container_name'' := x))) (navigation_include c)
     = execute lu (launch_context c (cli(''container_name'' := y))) (navigation_include c)
   \<and> execute lu (launch_context c (cli(''container_name'' := x))) (container c)
     = execute lu (launch_context c (cli(''container_name'' := y))) (container c)
   \<and> map_of (launch_arguments (navigation_include c)) ''container_name''
     = Some (Text (NVBLOX_CONTAINER_NAME c))
   \<and> container c =
       ComponentContainer (NVBLOX_CONTAINER_NAME c)
         (Some (UnlessCondition (LaunchConfiguration ''attach_to_container'')))
         (LaunchConfiguration ''log_level'')
   \<and> map (\<lambda>a. map_of (launch_arguments a) ''container_name'')
       [realsense_include, vslam_include, nvblox_include]
     = [Some (LaunchConfiguration ''container_name''),
        Some (LaunchConfiguration ''container_name''),
        Some (LaunchConfiguration ''container_name'')]
   \<and> execute lu (launch_context c (cli(''container_name'' \<mapsto> v))) vslam_include
     = Inr (Some (Included ''nvblox_examples_bringup'' ''launch/perception/vslam.launch.py''
         [(''container_name'', v),
          (''camera'', if configured ''1'' cli ''num_cameras'' = ''1''
                       then ''realsense'' else ''multi_realsense'')]
         (Some ''1.0'')))
   \<and> execute lu (launch_context c (cli(''container_name'' \<mapsto> v))) nvblox_include
     = Inr (Some (Included ''nvblox_examples_bringup'' ''launch/perception/nvblox.launch.py''
         [(''container_name'', v),
          (''mode'', configured (NvbloxMode_static c) cli ''mode''),
          (''camera'', if configured ''1'' cli ''num_cameras'' = ''1''
                       then ''realsense'' else ''multi_realsense''),
          (''num_cameras'', configured ''1'' cli ''num_cameras'')]
         None))"
proof -
  have nav: "execute lu (launch_context c (cli(''container_name'' := x))) (navigation_include c)
     = execute lu (launch_context c (cli(''container_name'' := y))) (navigation_include c)"
    by (simp add: execute_navigation_include)
  have cont: "execute lu (launch_context c (cli(''container_name'' := x))) (container c)
     = execute lu (launch_context c (cli(''container_name'' := y))) (container c)"
    by (simp add: execute_container split: sum.splits)
  have written:
    "map_of (launch_arguments (navigation_include c)) ''container_name''
       = Some (Text (NVBLOX_CONTAINER_NAME c))
     \<and> container c =
         ComponentContainer (NVBLOX_CONTAINER_NAME c)
           (Some (UnlessCondition (LaunchConfiguration ''attach_to_container'')))
           (LaunchConfiguration ''log_level'')
     \<and> map (\<lambda>a. map_of (launch_arguments a) ''container_name'')
         [realsense_include, vslam_include, nvblox_include]
       = [Some (LaunchConfiguration ''container_name''),
          Some (LaunchConfiguration ''container_name''),
          Some (LaunchConfiguration ''container_name'')]"
    by (simp add: navigation_include_def container_def realsense_include_def
        vslam_include_def nvblox_include_def)
  show ?thesis
    using nav cont written
      execute_vslam_include [of lu c "cli(''container_name'' \<mapsto> v)"]
      execute_nvblox_include [of lu c "cli(''container_name'' \<mapsto> v)"]
    by simp
qed

subsection \<open>The number of cameras\<close>

text \<open>\<open>str_nat\<close> is unfolded by hand below: as a rewrite rule it would not stop on a
  number that is not a numeral.\<close>

declare str_nat.simps [simp del]

lemma digit_char_props:
  assumes "d < 10"
  shows "is_digit (digit_char d)" "digit_val (digit_char d) = d"
  using assms
  by (simp_all add: is_digit_def digit_val_def digit_char_def)

lemma str_nat_digits: "list_all is_digit (str_nat n) \<and> str_nat n \<noteq> []"
proof (induction n rule: str_nat.induct)
  case (1 n)
  show ?case
  proof (cases "n < 10")
    case True
    then show ?thesis by (subst str_nat.simps, subst (2) str_nat.simps) (simp add: digit_char_props)
  next
    case False
    with 1 show ?thesis
      by (subst str_nat.simps, subst (2) str_nat.simps) (simp add: digit_char_props)
  qed
qed

lemma is_digit_plain:
  "is_digit ch \<Longrightarrow> is_plain ch \<and> \<not> is_space ch \<and> ch \<noteq> CHR ''-'' \<and> ch \<noteq> CHR ''+''"
  by (auto simp add: is_digit_def is_plain_def is_space_def)

lemma digits_value_all_digits:
  "list_all is_digit s \<Longrightarrow>
     digits_value acc p s =
       (if s = [] then (if p then Some acc else None)
        else Some (foldl (\<lambda>a ch. 10 * a + digit_val ch) acc s))"
  by (induction s arbitrary: acc p) simp_all

lemma foldl_str_nat: "foldl (\<lambda>a ch. 10 * a + digit_val ch) 0 (str_nat n) = n"
proof (induction n rule: str_nat.induct)
  case (1 n)
  show ?case
  proof (cases "n < 10")
    case True
    then show ?thesis by (subst str_nat.simps) (simp add: digit_char_props)
  next
    case False
    with 1 show ?thesis by (subst str_nat.simps) (simp add: digit_char_props)
  qed
qed

text \<open>Python's \<^verbatim>\<open>int\<close> reads back the text \<^verbatim>\<open>str\<close> gives for an
  integer.\<close>

lemma digits_value_str_nat: "digits_value 0 p (str_nat n) = Some n"
  using str_nat_digits [of n] by (simp add: digits_value_all_digits foldl_str_nat)

lemma dropWhile_none: "(\<And>x. x \<in> set xs \<Longrightarrow> \<not> P x) \<Longrightarrow> dropWhile P xs = xs"
  by (cases xs) auto

lemma strip_none:
  assumes "\<And>x. x \<in> set s \<Longrightarrow> \<not> is_space x"
  shows "strip s = s"
proof -
  have "dropWhile is_space s = s"
    by (rule dropWhile_none) (use assms in auto)
  moreover have "dropWhile is_space (rev s) = rev s"
    by (rule dropWhile_none) (use assms in auto)
  ultimately show ?thesis by (simp add: strip_def)
qed

lemma python_int_str_int:
  assumes "length (str_int n) \<le> 4300"
  shows "python_int (str_int n) = Inr n"
proof -
  obtain m where m: "m = nat \<bar>n\<bar>" by simp
  have digits: "list_all is_digit (str_nat m)" and ne: "str_nat m \<noteq> []"
    using str_nat_digits [of m] by simp_all
  have plain: "list_all is_plain (str_nat m)"
    and nospace: "\<And>x. x \<in> set (str_nat m) \<Longrightarrow> \<not> is_space x"
    using digits is_digit_plain by (auto simp add: list_all_iff)
  obtain d ds where dds: "str_nat m = d # ds" using ne by (cases "str_nat m") auto
  have d: "d \<noteq> CHR ''-''" "d \<noteq> CHR ''+''"
    using digits dds is_digit_plain [of d] by simp_all
  have short: "\<not> 4300 < length (filter is_digit (str_int n))"
    using assms length_filter_le [of is_digit "str_int n"] by linarith
  show ?thesis
  proof (cases "n < 0")
    case True
    then have s: "str_int n = CHR ''-'' # str_nat m" by (simp add: str_int_def m)
    have "strip (str_int n) = CHR ''-'' # str_nat m"
      unfolding s by (rule strip_none) (use nospace in \<open>auto simp add: is_space_def\<close>)
    moreover have "list_all is_plain (str_int n)"
      using plain by (simp add: s is_plain_def)
    ultimately show ?thesis
      using short True by (simp add: python_int_def digits_value_str_nat m)
  next
    case False
    then have s: "str_int n = str_nat m" by (simp add: str_int_def m)
    have "strip (str_int n) = d # ds"
      unfolding s dds [symmetric] by (rule strip_none) (use nospace in auto)
    moreover have "digits_value 0 False (d # ds) = Some m"
      using digits_value_str_nat [of False m] by (simp add: dds)
    moreover have "list_all is_plain (str_int n)"
      using plain by (simp add: s)
    ultimately show ?thesis
      using short False d by (simp add: python_int_def m)
  qed
qed

lemma python_int_small:
  "python_int ''1'' = Inr 1" "python_int ''2'' = Inr 2" "python_int ''3'' = Inr 3"
  "python_int ''4'' = Inr 4" "python_int ''5'' = Inr 5"
  by (simp_all add: python_int_def strip_def is_space_def is_plain_def is_digit_def
      digit_val_def)

lemma str_int_one: "(str_int n = ''1'') = (n = 1)"
proof
  assume h: "str_int n = ''1''"
  have "python_int (str_int n) = Inr n"
    by (rule python_int_str_int) (simp add: h)
  then show "n = 1" by (simp add: h python_int_small)
next
  assume "n = 1"
  then show "str_int n = ''1''"
    by (simp add: str_int_def str_nat.simps digit_char_def char_of_eq_iff)
qed






subsection \<open>The camera mode\<close>

text \<open>
  Claim C3. The visual SLAM and the nvblox launch files are each included once, and each
  is passed as \<^verbatim>\<open>camera\<close> the substitution \<^verbatim>\<open>camera_mode\<close> of the script. Under
  every assignment of the arguments and for every value \<open>v\<close> of \<^verbatim>\<open>num_cameras\<close> it
  yields the text of \<^verbatim>\<open>NvbloxCamera.realsense\<close> when \<open>v\<close> is the text 1 and that of
  \<^verbatim>\<open>NvbloxCamera.multi_realsense\<close> otherwise; the comparison is the one of
  \<^verbatim>\<open>lu.is_equal\<close>, on the texts. So for an integer \<open>n\<close> given by its decimal text both
  inclusions receive realsense when \<open>n = 1\<close> and multi\_realsense otherwise, and
  realsense when \<^verbatim>\<open>num_cameras\<close> is left at its default.
\<close>

theorem camera_mode_by_num_cameras:
  "filter (includes_path ''launch/perception/vslam.launch.py'')
     (generate_launch_description c) = [vslam_include]
   \<and> filter (includes_path ''launch/perception/nvblox.launch.py'')
     (generate_launch_description c) = [nvblox_include]
   \<and> map (\<lambda>a. map_of (launch_arguments a) ''camera'') [vslam_include, nvblox_include]
     = [Some camera_mode, Some camera_mode]
   \<and> perform lu (launch_context c (cli(''num_cameras'' \<mapsto> v))) camera_mode =
       Inr (if v = ''1'' then NvbloxCamera_realsense else NvbloxCamera_multi_realsense)
   \<and> NvbloxCamera_realsense = ''realsense''
   \<and> NvbloxCamera_multi_realsense = ''multi_realsense''
   \<and> perform lu (launch_context c (cli(''num_cameras'' \<mapsto> str_int n))) camera_mode =
       Inr (if n = 1 then ''realsense'' else ''multi_realsense'')
   \<and> perform lu (launch_context c (cli(''num_cameras'' := None))) camera_mode =
       Inr ''realsense''
   \<and> execute lu (launch_context c (cli(''num_cameras'' \<mapsto> str_int n))) vslam_include =
       Inr (Some (Included ''nvblox_examples_bringup'' ''launch/perception/vslam.launch.py''
         [(''container_name'', configured (NVBLOX_CONTAINER_NAME c) cli ''container_name''),
          (''camera'', if n = 1 then ''realsense'' else ''multi_realsense'')]
         (Some ''1.0'')))
   \<and> execute lu (launch_context c (cli(''num_cameras'' \<mapsto> str_int n))) nvblox_include =
       Inr (Some (Included ''nvblox_examples_bringup'' ''launch/perception/nvblox.launch.py''
         [(''container_name'', configured (NVBLOX_CONTAINER_NAME c) cli ''container_name''),
          (''mode'', configured (NvbloxMode_static c) cli ''mode''),
          (''camera'', if n = 1 then ''realsense'' else ''multi_realsense''),
          (''num_cameras'', str_int n)]
         None))"
proof -
  have once: "filter (includes_path ''launch/perception/vslam.launch.py'')
       (generate_launch_description c) = [vslam_include]"
    "filter (includes_path ''launch/perception/nvblox.launch.py'')
       (generate_launch_description c) = [nvblox_include]"
    by (simp_all add: description_defs)
  have passed: "map (\<lambda>a. map_of (launch_arguments a) ''camera'') [vslam_include, nvblox_include]
     = [Some camera_mode, Some camera_mode]"
    by (simp add: vslam_include_def nvblox_include_def)
  have names: "NvbloxCamera_realsense = ''realsense''"
    "NvbloxCamera_multi_realsense = ''multi_realsense''"
    by (simp_all add: NvbloxCamera_realsense_def NvbloxCamera_multi_realsense_def)
  have by_text: "perform lu (launch_context c (cli(''num_cameras'' \<mapsto> v))) camera_mode =
       Inr (if v = ''1'' then NvbloxCamera_realsense else NvbloxCamera_multi_realsense)"
    by (simp add: perform_camera_mode names)
  have by_int: "perform lu (launch_context c (cli(''num_cameras'' \<mapsto> str_int n))) camera_mode =
       Inr (if n = 1 then ''realsense'' else ''multi_realsense'')"
    by (simp add: perform_camera_mode str_int_one)
  have dflt: "perform lu (launch_context c (cli(''num_cameras'' := None))) camera_mode =
       Inr ''realsense''"
    by (simp add: perform_camera_mode)
  have vslam: "execute lu (launch_context c (cli(''num_cameras'' \<mapsto> str_int n))) vslam_include =
       Inr (Some (Included ''nvblox_examples_bringup'' ''launch/perception/vslam.launch.py''
         [(''container_name'', configured (NVBLOX_CONTAINER_NAME c) cli ''container_name''),
          (''camera'', if n = 1 then ''realsense'' else ''multi_realsense'')]
         (Some ''1.0'')))"
    by (simp add: execute_vslam_include str_int_one)
  have nvblox: "execute lu (launch_context c (cli(''num_cameras'' \<mapsto> str_int n))) nvblox_include =
       Inr (Some (Included ''nvblox_examples_bringup'' ''launch/perception/nvblox.launch.py''
         [(''container_name'', configured (NVBLOX_CONTAINER_NAME c) cli ''container_name''),
          (''mode'', configured (NvbloxMode_static c) cli ''mode''),
          (''camera'', if n = 1 then ''realsense'' else ''multi_realsense''),
          (''num_cameras'', str_int n)]
         None))"
    by (simp add: execute_nvblox_include str_int_one)
  show ?thesis
    using once passed names by_text by_int dflt vslam nvblox by (simp only: simp_thms)
qed

end
